theory Spec2Isabelle
  imports Complex_Main
begin

section \<open>Property trees and the hierarchy diff of the SurfaceFlinger presenter\<close>

text \<open>
  \<^verbatim>\<open>presenter.ts\<close> compares the property tree of a hierarchy node in the current
  entry with the one of the previous entry. A property node is read through its
  \<^verbatim>\<open>name\<close>, its \<^verbatim>\<open>source\<close>, \<^verbatim>\<open>getValue()\<close>, \<^verbatim>\<open>formattedValue()\<close>,
  \<^verbatim>\<open>getAllChildren()\<close> and \<^verbatim>\<open>getChildByName()\<close>; the node class itself is not
  among the sources, so each getter is a field of the datatype. Of the enum
  \<^verbatim>\<open>PropertySource\<close> the sources name only \<^verbatim>\<open>CALCULATED\<close>.
\<close>

datatype PropertySource = PROTO | DEFAULT | CALCULATED

datatype 'v PropertyTreeNode =
  PropertyTreeNode
    (node_id: string)
    (name: string)
    (source: PropertySource)
    (getValue: 'v)
    (formattedValue: string)
    (getAllChildren: "'v PropertyTreeNode list")

text \<open>
  Modelled from the spec: \<^verbatim>\<open>TreeNode.getChildByName\<close> is not among the sources.
  The spec matches a property "to the old tree's child of the same name"; the
  lookup returns the first such child, and \<open>None\<close> stands for \<^verbatim>\<open>undefined\<close>.
\<close>

definition getChildByName :: "'v PropertyTreeNode \<Rightarrow> string \<Rightarrow> 'v PropertyTreeNode option" where
  "getChildByName node n = find (\<lambda>child. name child = n) (getAllChildren node)"

definition DENYLIST_PROPERTY_NAMES :: "string list" where
  "DENYLIST_PROPERTY_NAMES = [''name'', ''children'', ''dpiX'', ''dpiY'']"

text \<open>
  \<^verbatim>\<open>isPropertyNodeModified(newTree, oldTree)\<close>: both arguments may be
  \<^verbatim>\<open>undefined\<close>.
\<close>

definition isPropertyNodeModified ::
  "'v PropertyTreeNode option \<Rightarrow> 'v PropertyTreeNode option \<Rightarrow> bool" where
  "isPropertyNodeModified newTree oldTree =
     (case newTree of
        None \<Rightarrow> (case oldTree of None \<Rightarrow> False | Some _ \<Rightarrow> True)
      | Some n \<Rightarrow>
          (case oldTree of
             None \<Rightarrow> True
           | Some old \<Rightarrow>
               (let newValue = formattedValue n; oldValue = formattedValue old
                in oldValue \<noteq> newValue)))"

text \<open>
  \<^verbatim>\<open>isChildPropertyModified(newProperties, oldProperties)\<close>. The \<^verbatim>\<open>for\<close> loop over
  \<^verbatim>\<open>newProperties.getAllChildren()\<close> is \<open>forNewProperties\<close>: \<^verbatim>\<open>continue\<close> goes on
  with the rest of the children, \<^verbatim>\<open>return true\<close> leaves the loop.
\<close>

fun isChildPropertyModified :: "'v PropertyTreeNode \<Rightarrow> 'v PropertyTreeNode \<Rightarrow> bool"
  and forNewProperties :: "'v PropertyTreeNode list \<Rightarrow> 'v PropertyTreeNode \<Rightarrow> bool" where
  "isChildPropertyModified (PropertyTreeNode i n s v fv cs) oldProperties =
     forNewProperties cs oldProperties"
| "forNewProperties [] oldProperties = False"
| "forNewProperties (newProperty # rest) oldProperties =
     (if name newProperty \<in> set DENYLIST_PROPERTY_NAMES then forNewProperties rest oldProperties
      else if source newProperty = CALCULATED then forNewProperties rest oldProperties
      else
        (case getChildByName oldProperties (name newProperty) of
           None \<Rightarrow> True
         | Some oldProperty \<Rightarrow>
             if length (getAllChildren newProperty) = 0 then
               (if isPropertyNodeModified (Some newProperty) (Some oldProperty) then True
                else forNewProperties rest oldProperties)
             else
               (if isChildPropertyModified newProperty oldProperty then True
                else forNewProperties rest oldProperties)))"

text \<open>
  A hierarchy node as the presenter reads it: \<^verbatim>\<open>isRoot()\<close> and the property tree
  that \<^verbatim>\<open>await getAllProperties()\<close> resolves to.
\<close>

record 'v UiHierarchyTreeNode =
  isRoot :: bool
  getAllProperties :: "'v PropertyTreeNode"

definition isHierarchyTreeModified ::
  "'v UiHierarchyTreeNode option \<Rightarrow> 'v UiHierarchyTreeNode option \<Rightarrow> bool" where
  "isHierarchyTreeModified newTree oldTree =
     (case newTree of
        None \<Rightarrow> (case oldTree of None \<Rightarrow> False | Some _ \<Rightarrow> True)
      | Some n \<Rightarrow>
          (case oldTree of
             None \<Rightarrow> True
           | Some old \<Rightarrow>
               if isRoot n then False
               else isChildPropertyModified (getAllProperties n) (getAllProperties old)))"

text \<open>
  What the idempotence property compares: the part of a property tree that takes part
  in the diff. \<open>excluded\<close> is the pair of \<^verbatim>\<open>continue\<close> tests of the loop,
  \<open>renderedView\<close> keeps of every node its name, its rendered value and its
  non-excluded children, and \<open>uniqueNames\<close> is the invariant of the data model that
  sibling properties have different names.
\<close>

definition excluded :: "'v PropertyTreeNode \<Rightarrow> bool" where
  "excluded p = (name p \<in> set DENYLIST_PROPERTY_NAMES \<or> source p = CALCULATED)"

datatype rendered = Rendered string string "rendered list"

fun renderedView :: "'v PropertyTreeNode \<Rightarrow> rendered" where
  "renderedView (PropertyTreeNode i n s v fv cs) =
     Rendered n fv (map renderedView (filter (\<lambda>c. \<not> excluded c) cs))"

fun uniqueNames :: "'v PropertyTreeNode \<Rightarrow> bool" where
  "uniqueNames (PropertyTreeNode i n s v fv cs) =
     (distinct (map name cs) \<and> list_all uniqueNames cs)"

section \<open>Root properties of a merged transition\<close>

text \<open>
  \<^verbatim>\<open>add_root_properties.ts\<close>. A thrown JavaScript value is an \<open>exn\<close>, and a
  computation that may throw returns \<open>exn + 'a\<close> with \<open>Inl\<close> for the throw.
  \<^verbatim>\<open>assertDefined\<close> (from \<^verbatim>\<open>common/assert_utils\<close>, not among the sources) throws on
  \<^verbatim>\<open>undefined\<close>; \<open>nullish a b\<close> is \<^verbatim>\<open>a ?? b\<close>. The node factory is not among the
  sources either: its \<^verbatim>\<open>makeCalculatedProperty(rootId, name, value)\<close> is the first
  argument of \<open>makeProperties\<close>.
\<close>

datatype exn = AssertionFailed | Thrown string

definition assertDefined :: "'a option \<Rightarrow> exn + 'a" where
  "assertDefined v = (case v of None \<Rightarrow> Inl AssertionFailed | Some x \<Rightarrow> Inr x)"

definition nullish :: "'a option \<Rightarrow> 'a option \<Rightarrow> 'a option" where
  "nullish a b = (case a of Some x \<Rightarrow> Some x | None \<Rightarrow> b)"

definition makeProperties ::
  "(string \<Rightarrow> string \<Rightarrow> 'v \<Rightarrow> 'v PropertyTreeNode) \<Rightarrow> 'v PropertyTreeNode \<Rightarrow>
   exn + 'v PropertyTreeNode list" where
  "makeProperties makeCalculatedProperty value =
     (case assertDefined (getChildByName value ''wmData'') of
        Inl e \<Rightarrow> Inl e
      | Inr wmData \<Rightarrow>
     (case assertDefined (getChildByName value ''shellData'') of
        Inl e \<Rightarrow> Inl e
      | Inr shellData \<Rightarrow>
     (let idNode = nullish (getChildByName wmData ''id'') (getChildByName shellData ''id'') in
      case assertDefined idNode of
        Inl e \<Rightarrow> Inl e
      | Inr definedId \<Rightarrow>
     (let rootIdNode = makeCalculatedProperty (node_id value) ''id'' (getValue definedId);
          realToElapsedTimeOffsetNs =
            (if getChildByName value ''aborted'' \<noteq> None
             then nullish (getChildByName wmData ''realToElapsedTimeOffsetNs'')
                          (getChildByName shellData ''realToElapsedTimeOffsetNs'')
             else nullish (getChildByName shellData ''realToElapsedTimeOffsetNs'')
                          (getChildByName wmData ''realToElapsedTimeOffsetNs''))
      in case assertDefined realToElapsedTimeOffsetNs of
           Inl e \<Rightarrow> Inl e
         | Inr definedOffset \<Rightarrow>
             Inr [rootIdNode,
                  makeCalculatedProperty (node_id value) ''realToElapsedTimeOffsetNs''
                    (getValue definedOffset)]))))"

section \<open>The parser factory\<close>

text \<open>
  \<^verbatim>\<open>ParserFactory\<close>. The enum \<^verbatim>\<open>TraceType\<close> is not among the sources: it is the
  type parameter \<open>'t\<close>. Of a parser the factory reads \<^verbatim>\<open>getTraceType()\<close>,
  \<^verbatim>\<open>getLengthEntries()\<close> and \<^verbatim>\<open>getDescriptors()\<close>; of a trace file
  \<^verbatim>\<open>file.name\<close> (for the console only) and \<^verbatim>\<open>getDescriptor()\<close>. Console output is
  not modelled.
\<close>

record 't Parser =
  getTraceType :: 't
  getLengthEntries :: nat
  getDescriptors :: "string list"

record TraceFile =
  file_name :: string
  getDescriptor :: string

datatype ParserErrorType = CORRUPTED_ARCHIVE | NO_INPUT_FILES | UNSUPPORTED_FORMAT | OVERRIDE

datatype 't ParserError =
  ParserError (type: ParserErrorType) (trace: "string option") (traceType: "'t option")

datatype ParserType =
    ParserAccessibility
  | ParserInputMethodClients
  | ParserInputMethodManagerService
  | ParserInputMethodService
  | ParserProtoLog
  | ParserScreenRecording
  | ParserScreenRecordingLegacy
  | ParserSurfaceFlinger
  | ParserTransactions
  | ParserWindowManager
  | ParserWindowManagerDump
  | ParserEventLog
  | ParserTransitionsWm
  | ParserTransitionsShell
  | ParserViewCapture

definition PARSERS :: "ParserType list" where
  "PARSERS =
     [ParserAccessibility,
      ParserInputMethodClients,
      ParserInputMethodManagerService,
      ParserInputMethodService,
      ParserProtoLog,
      ParserScreenRecording,
      ParserScreenRecordingLegacy,
      ParserSurfaceFlinger,
      ParserTransactions,
      ParserWindowManager,
      ParserWindowManagerDump,
      ParserEventLog,
      ParserTransitionsWm,
      ParserTransitionsShell,
      ParserViewCapture]"

text \<open>
  The parser classes are not among the sources. \<^verbatim>\<open>new ParserType(traceFile)\<close>
  followed by \<^verbatim>\<open>await parser.parse()\<close> is a parameter of type \<open>'t Variants\<close>: it
  throws, or yields the parsed object, which is an instance of
  \<^verbatim>\<open>ParserViewCapture\<close> with its \<^verbatim>\<open>windowParsers\<close>, or any other parser.
\<close>

datatype 't Parsed = Parsed "'t Parser" | ParsedViewCapture (windowParsers: "'t Parser list")

type_synonym 't Variants = "ParserType \<Rightarrow> TraceFile \<Rightarrow> exn + 't Parsed"

text \<open>\<^verbatim>\<open>Array.prototype.join()\<close> with its default separator.\<close>

fun join :: "string list \<Rightarrow> string" where
  "join [] = []"
| "join [x] = x"
| "join (x # y # ys) = x @ '','' @ join (y # ys)"

text \<open>
  The state that \<^verbatim>\<open>createParsers\<close> works on: the field \<^verbatim>\<open>this.parsers\<close> of the
  factory, which outlives the call, and the two locals \<^verbatim>\<open>parsers\<close> and
  \<^verbatim>\<open>errors\<close>.
\<close>

record 't Run =
  this_parsers :: "'t \<rightharpoonup> 't Parser"
  parsers :: "(TraceFile \<times> 't Parser) list"
  errors :: "'t ParserError list"

definition shouldUseParser ::
  "('t \<rightharpoonup> 't Parser) \<Rightarrow> 't Parser \<Rightarrow> 't ParserError list \<Rightarrow> bool \<times> 't ParserError list" where
  "shouldUseParser thisParsers newParser errs =
     (case thisParsers (getTraceType newParser) of
        None \<Rightarrow> (True, errs)
      | Some oldParser \<Rightarrow>
          if getLengthEntries newParser > getLengthEntries oldParser then
            (True,
             errs @ [ParserError OVERRIDE (Some (join (getDescriptors oldParser)))
                       (Some (getTraceType oldParser))])
          else
            (False,
             errs @ [ParserError OVERRIDE (Some (join (getDescriptors newParser)))
                       (Some (getTraceType newParser))]))"

definition maybeAddParser :: "'t Parser \<Rightarrow> TraceFile \<Rightarrow> 't Run \<Rightarrow> 't Run" where
  "maybeAddParser p f st =
     (case shouldUseParser (this_parsers st) p (errors st) of
        (use, errs) \<Rightarrow>
          if use then
            st\<lparr>this_parsers := (this_parsers st)(getTraceType p \<mapsto> p),
               parsers := parsers st @ [(f, p)],
               errors := errs\<rparr>
          else st\<lparr>errors := errs\<rparr>)"

text \<open>
  The body of the \<^verbatim>\<open>try\<close> block, after which comes \<^verbatim>\<open>break\<close>. A throw of the
  constructor or of \<^verbatim>\<open>parse()\<close> leaves the state as it was. The getters of a
  parsed parser are fields here, so nothing throws once \<^verbatim>\<open>hasFoundParser\<close> is set.
\<close>

definition tryBlock :: "'t Variants \<Rightarrow> ParserType \<Rightarrow> TraceFile \<Rightarrow> 't Run \<Rightarrow> exn + 't Run" where
  "tryBlock variants parserType traceFile st =
     (case variants parserType traceFile of
        Inl e \<Rightarrow> Inl e
      | Inr (ParsedViewCapture ws) \<Rightarrow> Inr (foldl (\<lambda>s it. maybeAddParser it traceFile s) st ws)
      | Inr (Parsed parser) \<Rightarrow> Inr (maybeAddParser parser traceFile st))"

text \<open>
  The loop over \<^verbatim>\<open>ParserFactory.PARSERS\<close>: \<^verbatim>\<open>catch\<close> skips the current parser, a
  completed \<^verbatim>\<open>try\<close> block breaks out of the loop. The Boolean is
  \<^verbatim>\<open>hasFoundParser\<close>.
\<close>

fun forParserTypes ::
  "'t Variants \<Rightarrow> ParserType list \<Rightarrow> TraceFile \<Rightarrow> 't Run \<Rightarrow> exn + (bool \<times> 't Run)" where
  "forParserTypes variants [] traceFile st = Inr (False, st)"
| "forParserTypes variants (parserType # rest) traceFile st =
     (case tryBlock variants parserType traceFile st of
        Inr st' \<Rightarrow> Inr (True, st')
      | Inl error \<Rightarrow> forParserTypes variants rest traceFile st)"

text \<open>
  A progress listener changes a state \<open>'l\<close> of its own and returns; a listener that
  throws, or that reaches into the factory, is outside the model. The percentage
  \<^verbatim>\<open>(index / traceFiles.length) * 100\<close> is the exact quotient; the listener of the
  program sees the double nearest to it.
\<close>

type_synonym 'l ProgressListener = "string \<Rightarrow> rat \<Rightarrow> 'l \<Rightarrow> 'l"

definition onProgressUpdate ::
  "'l ProgressListener option \<Rightarrow> string \<Rightarrow> rat \<Rightarrow> 'l \<Rightarrow> 'l" where
  "onProgressUpdate progressListener label percentage l =
     (case progressListener of None \<Rightarrow> l | Some listener \<Rightarrow> listener label percentage l)"

text \<open>
  The loop over \<^verbatim>\<open>traceFiles.entries()\<close>, from \<open>index\<close> on; \<open>n\<close> is
  \<^verbatim>\<open>traceFiles.length\<close>.
\<close>

fun forTraceFiles ::
  "'t Variants \<Rightarrow> 'l ProgressListener option \<Rightarrow> nat \<Rightarrow> nat \<Rightarrow> TraceFile list \<Rightarrow>
   't Run \<times> 'l \<Rightarrow> exn + ('t Run \<times> 'l)" where
  "forTraceFiles variants progressListener n index [] (st, l) = Inr (st, l)"
| "forTraceFiles variants progressListener n index (traceFile # rest) (st, l) =
     (let l' = onProgressUpdate progressListener ''Parsing proto files''
                 ((of_nat index / of_nat n) * 100) l
      in case forParserTypes variants PARSERS traceFile st of
           Inl e \<Rightarrow> Inl e
         | Inr (hasFoundParser, st') \<Rightarrow>
             forTraceFiles variants progressListener n (Suc index) rest
               (if \<not> hasFoundParser then
                  st'\<lparr>errors := errors st' @
                     [ParserError UNSUPPORTED_FORMAT (Some (getDescriptor traceFile)) None]\<rparr>
                else st',
                l'))"

text \<open>
  \<^verbatim>\<open>createParsers(traceFiles, progressListener)\<close> returns \<^verbatim>\<open>[parsers, errors]\<close>;
  the model returns with them the new \<^verbatim>\<open>this.parsers\<close> and the listener's state.
\<close>

definition createParsers ::
  "'t Variants \<Rightarrow> TraceFile list \<Rightarrow> 'l ProgressListener option \<Rightarrow> ('t \<rightharpoonup> 't Parser) \<times> 'l \<Rightarrow>
   exn + (((TraceFile \<times> 't Parser) list \<times> 't ParserError list) \<times> ('t \<rightharpoonup> 't Parser) \<times> 'l)" where
  "createParsers variants traceFiles progressListener s =
     (case s of (thisParsers, l) \<Rightarrow>
        (case forTraceFiles variants progressListener (length traceFiles) 0 traceFiles
                (\<lparr>this_parsers = thisParsers, parsers = [], errors = []\<rparr>, l) of
           Inl e \<Rightarrow> Inl e
         | Inr (st, l') \<Rightarrow> Inr ((parsers st, errors st), this_parsers st, l')))"

text \<open>The field initialiser \<^verbatim>\<open>private parsers = new Map()\<close> of a new factory.\<close>

definition newParserFactory :: "'t \<rightharpoonup> 't Parser" where
  "newParserFactory = Map.empty"

text \<open>The value that the caller of \<^verbatim>\<open>createParsers\<close> receives, or the throw.\<close>

definition returnValue :: "exn + ('r \<times> 'm \<times> 'l) \<Rightarrow> exn + 'r" where
  "returnValue outcome = (case outcome of Inl e \<Rightarrow> Inl e | Inr (r, rest) \<Rightarrow> Inr r)"

subsection \<open>Parser selection as the specification words it\<close>

text \<open>
  A variant accepts a file when construction and \<^verbatim>\<open>parse()\<close> do not throw. The
  first accepting variant in the order of \<open>PARSERS\<close> yields the candidates of the
  file: one parser, or the window parsers of a view capture. Each candidate goes
  through the arbitration; a file that no variant accepts adds one
  \<open>UNSUPPORTED_FORMAT\<close> error with its descriptor.
\<close>

definition spec_acceptingVariants :: "'t Variants \<Rightarrow> TraceFile \<Rightarrow> ParserType list" where
  "spec_acceptingVariants variants f = filter (\<lambda>P. \<not> isl (variants P f)) PARSERS"

definition spec_firstAccepted :: "'t Variants \<Rightarrow> TraceFile \<Rightarrow> 't Parsed option" where
  "spec_firstAccepted variants f =
     (case find (\<lambda>P. \<not> isl (variants P f)) PARSERS of
        None \<Rightarrow> None
      | Some P \<Rightarrow> (case variants P f of Inl e \<Rightarrow> None | Inr r \<Rightarrow> Some r))"

fun spec_fanOut :: "'t Parsed \<Rightarrow> 't Parser list" where
  "spec_fanOut (Parsed p) = [p]"
| "spec_fanOut (ParsedViewCapture ws) = ws"

definition spec_candidates :: "'t Variants \<Rightarrow> TraceFile \<Rightarrow> 't Parser list" where
  "spec_candidates variants f =
     (case spec_firstAccepted variants f of None \<Rightarrow> [] | Some r \<Rightarrow> spec_fanOut r)"

text \<open>
  The parser map after the candidates \<open>ws\<close> were registered one after the other, and a
  run to which the pairs \<open>ps\<close> and the errors \<open>es\<close> of an earlier part of the file
  list are put in front.
\<close>

fun spec_register :: "('t \<rightharpoonup> 't Parser) \<Rightarrow> 't Parser list \<Rightarrow> ('t \<rightharpoonup> 't Parser)" where
  "spec_register m [] = m"
| "spec_register m (p # ps) = spec_register (m(getTraceType p \<mapsto> p)) ps"


definition spec_selectStep :: "'t Variants \<Rightarrow> 't Run \<Rightarrow> TraceFile \<Rightarrow> 't Run" where
  "spec_selectStep variants st f =
     (case spec_firstAccepted variants f of
        None \<Rightarrow>
          st\<lparr>errors := errors st @
             [ParserError UNSUPPORTED_FORMAT (Some (getDescriptor f)) None]\<rparr>
      | Some r \<Rightarrow> foldl (\<lambda>s p. maybeAddParser p f s) st (spec_fanOut r))"

section \<open>The trace pipeline\<close>

text \<open>
  \<^verbatim>\<open>TracePipeline.loadTraceFiles\<close>. Its collaborators are not among the sources and
  are parameters: the file filter with its result \<^verbatim>\<open>{perfetto, legacy, errors}\<close>,
  the Perfetto parser factory, the factory of the traces parsers, the parser variants
  of \<^verbatim>\<open>ParserFactory\<close>, and the three members of \<^verbatim>\<open>TraceType\<close> that the function
  names.
\<close>

record 't FilterResult =
  perfetto :: "TraceFile option"
  legacy :: "TraceFile list"
  filter_errors :: "'t ParserError list"

record ('t, 'l) Collaborators =
  traceFileFilter :: "TraceFile list \<Rightarrow> 't FilterResult"
  perfettoCreateParsers ::
    "TraceFile \<Rightarrow> 'l ProgressListener option \<Rightarrow> 'l \<Rightarrow> 't Parser list \<times> 'l"
  tracesCreateParsers :: "'t Parser list \<Rightarrow> 't Parser list"
  parserVariants :: "'t Variants"
  TRANSITION :: 't
  WM_TRANSITION :: 't
  SHELL_TRANSITION :: 't

text \<open>
  Modelled from the spec: the classes \<^verbatim>\<open>Trace\<close> and \<^verbatim>\<open>Traces\<close> are not among the
  sources. \<^verbatim>\<open>Traces\<close> is "a mapping from TraceType to Trace, keys unique", here the
  entries in insertion order; an uninitialised trace is its type and its parser.
\<close>

record 't Trace =
  trace_type :: 't
  trace_parser :: "'t Parser"

definition newUninitializedTrace :: "'t Parser \<Rightarrow> 't Trace" where
  "newUninitializedTrace parser = \<lparr>trace_type = getTraceType parser, trace_parser = parser\<rparr>"

fun setTrace :: "'t \<Rightarrow> 't Trace \<Rightarrow> ('t \<times> 't Trace) list \<Rightarrow> ('t \<times> 't Trace) list" where
  "setTrace k v [] = [(k, v)]"
| "setTrace k v ((k', v') # rest) =
     (if k' = k then (k, v) # rest else (k', v') # setTrace k v rest)"

definition deleteTrace :: "'t \<Rightarrow> ('t \<times> 't Trace) list \<Rightarrow> ('t \<times> 't Trace) list" where
  "deleteTrace k entries = filter (\<lambda>entry. fst entry \<noteq> k) entries"

text \<open>
  The fields of the pipeline that \<^verbatim>\<open>loadTraceFiles\<close> reads or writes;
  \<open>parserFactory\<close> is the \<^verbatim>\<open>this.parsers\<close> map of its \<^verbatim>\<open>ParserFactory\<close>.
\<close>

record 't TracePipeline =
  parserFactory :: "'t \<rightharpoonup> 't Parser"
  pipeline_parsers :: "'t Parser list"
  files :: "'t \<rightharpoonup> TraceFile"
  traces :: "('t \<times> 't Trace) list"

definition newTracePipeline :: "'t TracePipeline" where
  "newTracePipeline =
     \<lparr>parserFactory = newParserFactory, pipeline_parsers = [], files = Map.empty, traces = []\<rparr>"

definition loadTraceFiles ::
  "('t, 'l) Collaborators \<Rightarrow> TraceFile list \<Rightarrow> 'l ProgressListener option \<Rightarrow>
   't TracePipeline \<times> 'l \<Rightarrow> exn + ('t ParserError list \<times> 't TracePipeline \<times> 'l)" where
  "loadTraceFiles c traceFiles progressListener s =
     (case s of (this, l) \<Rightarrow>
       (let filterResult = traceFileFilter c traceFiles in
        if perfetto filterResult = None \<and> length (legacy filterResult) = 0 then
          Inr ([ParserError NO_INPUT_FILES None None], this, l)
        else
          (let errs = filter_errors filterResult in
           case (case perfetto filterResult of
                   None \<Rightarrow> (pipeline_parsers this, l)
                 | Some perfettoFile \<Rightarrow>
                     (case perfettoCreateParsers c perfettoFile progressListener l of
                        (perfettoParsers, l') \<Rightarrow> (pipeline_parsers this @ perfettoParsers, l'))) of
             (parsers1, l1) \<Rightarrow>
           (case createParsers (parserVariants c) (legacy filterResult) progressListener
                   (parserFactory this, l1) of
              Inl e \<Rightarrow> Inl e
            | Inr ((fileAndParsers, legacyErrors), factory', l2) \<Rightarrow>
                (let errs' = errs @ legacyErrors;
                     files' = foldl (\<lambda>m fileAndParser.
                                 m(getTraceType (snd fileAndParser) \<mapsto> fst fileAndParser))
                               (files this) fileAndParsers;
                     newParsers = map snd fileAndParsers;
                     parsers2 = parsers1 @ newParsers;
                     tracesParsers = tracesCreateParsers c parsers2;
                     allParsers = parsers2 @ tracesParsers;
                     traces0 = foldl (\<lambda>tr parser.
                                  setTrace (getTraceType parser) (newUninitializedTrace parser) tr)
                                [] allParsers;
                     hasTransitionTrace =
                       list_ex (\<lambda>ty. ty = TRANSITION c) (map (\<lambda>entry. trace_type (snd entry)) traces0);
                     traces1 =
                       (if hasTransitionTrace
                        then deleteTrace (SHELL_TRANSITION c) (deleteTrace (WM_TRANSITION c) traces0)
                        else traces0)
                 in Inr (errs',
                         \<lparr>parserFactory = factory', pipeline_parsers = parsers2,
                          files = files', traces = traces1\<rparr>,
                         l2))))))"

section \<open>Sample inputs\<close>

text \<open>Concrete trees, files and parsers at which the theorems below are instantiated.\<close>

definition sample_flags_old :: "nat PropertyTreeNode" where
  "sample_flags_old = PropertyTreeNode ''layer.flags'' ''flags'' PROTO 1 ''HIDDEN'' []"

definition sample_flags_new :: "nat PropertyTreeNode" where
  "sample_flags_new = PropertyTreeNode ''layer.flags'' ''flags'' PROTO 2 ''HIDDEN'' []"

definition sample_layer_old :: "nat PropertyTreeNode" where
  "sample_layer_old =
     PropertyTreeNode ''layer'' ''layer'' PROTO 0 []
       [sample_flags_old,
        PropertyTreeNode ''layer.dpiX'' ''dpiX'' PROTO 160 ''160'' [],
        PropertyTreeNode ''layer.zOrderPath'' ''zOrderPath'' CALCULATED 3 ''3'' [],
        PropertyTreeNode ''layer.bounds'' ''bounds'' PROTO 0 []
          [PropertyTreeNode ''layer.bounds.left'' ''left'' PROTO 0 ''0'' [],
           PropertyTreeNode ''layer.bounds.right'' ''right'' PROTO 100 ''100'' []]]"

definition sample_layer_new :: "nat PropertyTreeNode" where
  "sample_layer_new =
     PropertyTreeNode ''layer'' ''layer'' PROTO 0 []
       [sample_flags_new,
        PropertyTreeNode ''layer.dpiX'' ''dpiX'' PROTO 320 ''320'' [],
        PropertyTreeNode ''layer.zOrderPath'' ''zOrderPath'' CALCULATED 7 ''7'' [],
        PropertyTreeNode ''layer.bounds'' ''bounds'' PROTO 0 []
          [PropertyTreeNode ''layer.bounds.left'' ''left'' PROTO 0 ''0'' [],
           PropertyTreeNode ''layer.bounds.right'' ''right'' PROTO 100 ''100'' []]]"

definition sample_layer_moved :: "nat PropertyTreeNode" where
  "sample_layer_moved =
     PropertyTreeNode ''layer'' ''layer'' PROTO 0 []
       [sample_flags_new,
        PropertyTreeNode ''layer.bounds'' ''bounds'' PROTO 0 []
          [PropertyTreeNode ''layer.bounds.left'' ''left'' PROTO 0 ''0'' [],
           PropertyTreeNode ''layer.bounds.right'' ''right'' PROTO 120 ''120'' []]]"

definition sample_twins :: "nat PropertyTreeNode" where
  "sample_twins =
     PropertyTreeNode ''layer'' ''layer'' PROTO 0 []
       [PropertyTreeNode ''layer.z'' ''z'' PROTO 1 ''1'' [],
        PropertyTreeNode ''layer.z'' ''z'' PROTO 2 ''2'' []]"

definition sample_node_old :: "nat UiHierarchyTreeNode" where
  "sample_node_old = \<lparr>isRoot = False, getAllProperties = sample_layer_old\<rparr>"

definition sample_node_new :: "nat UiHierarchyTreeNode" where
  "sample_node_new = \<lparr>isRoot = False, getAllProperties = sample_layer_new\<rparr>"

definition sample_node_moved :: "nat UiHierarchyTreeNode" where
  "sample_node_moved = \<lparr>isRoot = False, getAllProperties = sample_layer_moved\<rparr>"

definition sample_root_moved :: "nat UiHierarchyTreeNode" where
  "sample_root_moved = \<lparr>isRoot = True, getAllProperties = sample_layer_moved\<rparr>"

definition sample_wmData :: "nat PropertyTreeNode" where
  "sample_wmData =
     PropertyTreeNode ''transition.wmData'' ''wmData'' PROTO 0 []
       [PropertyTreeNode ''transition.wmData.id'' ''id'' PROTO 7 ''7'' [],
        PropertyTreeNode ''transition.wmData.realToElapsedTimeOffsetNs''
          ''realToElapsedTimeOffsetNs'' PROTO 1000 ''1000'' []]"

definition sample_shellData :: "nat PropertyTreeNode" where
  "sample_shellData =
     PropertyTreeNode ''transition.shellData'' ''shellData'' PROTO 0 []
       [PropertyTreeNode ''transition.shellData.realToElapsedTimeOffsetNs''
          ''realToElapsedTimeOffsetNs'' PROTO 2000 ''2000'' []]"

definition sample_transition :: "nat PropertyTreeNode" where
  "sample_transition =
     PropertyTreeNode ''transition'' ''transition'' PROTO 0 [] [sample_wmData, sample_shellData]"

definition sample_transition_aborted :: "nat PropertyTreeNode" where
  "sample_transition_aborted =
     PropertyTreeNode ''transition'' ''transition'' PROTO 0 []
       [sample_wmData, sample_shellData,
        PropertyTreeNode ''transition.aborted'' ''aborted'' PROTO 1 ''true'' []]"

definition sample_makeCalculatedProperty :: "string \<Rightarrow> string \<Rightarrow> nat \<Rightarrow> nat PropertyTreeNode" where
  "sample_makeCalculatedProperty rootId n v =
     PropertyTreeNode (rootId @ ''.'' @ n) n CALCULATED v [] []"

definition sample_file_a :: TraceFile where
  "sample_file_a = \<lparr>file_name = ''sf_a.winscope'', getDescriptor = ''sf_a.winscope''\<rparr>"

definition sample_file_b :: TraceFile where
  "sample_file_b = \<lparr>file_name = ''sf_b.winscope'', getDescriptor = ''sf_b.winscope''\<rparr>"

definition sample_file_vc :: TraceFile where
  "sample_file_vc = \<lparr>file_name = ''launcher.vc'', getDescriptor = ''launcher.vc''\<rparr>"

definition sample_file_txt :: TraceFile where
  "sample_file_txt = \<lparr>file_name = ''notes.txt'', getDescriptor = ''notes.txt''\<rparr>"

definition sample_parser_a :: "string Parser" where
  "sample_parser_a =
     \<lparr>getTraceType = ''SURFACE_FLINGER'', getLengthEntries = 5,
      getDescriptors = [''sf_a.winscope'']\<rparr>"

definition sample_parser_b_longer :: "string Parser" where
  "sample_parser_b_longer =
     \<lparr>getTraceType = ''SURFACE_FLINGER'', getLengthEntries = 8,
      getDescriptors = [''sf_b.winscope'']\<rparr>"

definition sample_parser_b_equal :: "string Parser" where
  "sample_parser_b_equal =
     \<lparr>getTraceType = ''SURFACE_FLINGER'', getLengthEntries = 5,
      getDescriptors = [''sf_b.winscope'']\<rparr>"

definition sample_window_1 :: "string Parser" where
  "sample_window_1 =
     \<lparr>getTraceType = ''VIEW_CAPTURE_LAUNCHER_ACTIVITY'', getLengthEntries = 2,
      getDescriptors = [''launcher.vc'']\<rparr>"

definition sample_window_2 :: "string Parser" where
  "sample_window_2 =
     \<lparr>getTraceType = ''VIEW_CAPTURE_TASKBAR_DRAG_LAYER'', getLengthEntries = 3,
      getDescriptors = [''launcher.vc'']\<rparr>"

definition sample_variants :: "string Variants" where
  "sample_variants parserType f =
     (if parserType = ParserSurfaceFlinger \<and> file_name f = ''sf_a.winscope''
        then Inr (Parsed sample_parser_a)
      else if parserType = ParserSurfaceFlinger \<and> file_name f = ''sf_b.winscope''
        then Inr (Parsed sample_parser_b_longer)
      else if parserType = ParserViewCapture \<and> file_name f = ''launcher.vc''
        then Inr (ParsedViewCapture [sample_window_1, sample_window_2])
      else Inl (Thrown ''not this format''))"

definition sample_run :: "string Run" where
  "sample_run =
     \<lparr>this_parsers = [''SURFACE_FLINGER'' \<mapsto> sample_parser_a],
      parsers = [(sample_file_a, sample_parser_a)],
      errors = []\<rparr>"

definition sample_logger :: "(string \<times> rat) list ProgressListener" where
  "sample_logger label percentage calls = calls @ [(label, percentage)]"

definition sample_filter :: "TraceFile list \<Rightarrow> string FilterResult" where
  "sample_filter fs =
     \<lparr>perfetto = find (\<lambda>f. file_name f = ''trace.perfetto-trace'') fs,
      legacy = filter (\<lambda>f. file_name f \<noteq> ''trace.perfetto-trace'' \<and> file_name f \<noteq> ''broken.zip'') fs,
      filter_errors =
        map (\<lambda>f. ParserError CORRUPTED_ARCHIVE (Some (getDescriptor f)) None)
          (filter (\<lambda>f. file_name f = ''broken.zip'') fs)\<rparr>"


definition sample_collaborators :: "(string, unit) Collaborators" where
  "sample_collaborators =
     \<lparr>traceFileFilter = sample_filter,
      perfettoCreateParsers = (\<lambda>f progressListener l. ([], l)),
      tracesCreateParsers = (\<lambda>ps. []),
      parserVariants = sample_variants,
      TRANSITION = ''TRANSITION'',
      WM_TRANSITION = ''WM_TRANSITION'',
      SHELL_TRANSITION = ''SHELL_TRANSITION''\<rparr>"

section \<open>Properties of the diff\<close>

lemmas tree_defs =
  sample_flags_old_def sample_flags_new_def sample_layer_old_def sample_layer_new_def
  sample_layer_moved_def sample_twins_def sample_node_old_def sample_node_new_def
  sample_node_moved_def sample_root_moved_def sample_wmData_def sample_shellData_def
  sample_transition_def sample_transition_aborted_def sample_makeCalculatedProperty_def

lemmas diff_defs =
  isHierarchyTreeModified_def isPropertyNodeModified_def getChildByName_def
  DENYLIST_PROPERTY_NAMES_def excluded_def

lemma find_distinct_name:
  "distinct (map name cs) \<Longrightarrow> c \<in> set cs \<Longrightarrow> find (\<lambda>x. name x = name c) cs = Some c"
  by (induction cs) (auto simp: rev_image_eqI)

lemma renderedView_name: "renderedView a = renderedView b \<Longrightarrow> name a = name b"
  by (cases a; cases b) simp

lemma renderedView_formattedValue:
  "renderedView a = renderedView b \<Longrightarrow> formattedValue a = formattedValue b"
  by (cases a; cases b) simp

lemma renderedView_children:
  "renderedView a = renderedView b \<Longrightarrow>
   map renderedView (filter (\<lambda>c. \<not> excluded c) (getAllChildren a)) =
   map renderedView (filter (\<lambda>c. \<not> excluded c) (getAllChildren b))"
  by (cases a; cases b) simp

lemma uniqueNames_children:
  "uniqueNames a \<Longrightarrow>
   distinct (map name (getAllChildren a)) \<and> (\<forall>c \<in> set (getAllChildren a). uniqueNames c)"
  by (cases a) (simp add: list_all_iff)

text \<open>
  The loop returns \<open>False\<close> when every property it does not skip has a counterpart
  with the same rendered view among the children of the old node. The induction follows
  the two functions; the second statement is the invariant of the loop.
\<close>

lemma same_rendered_not_modified:
  "uniqueNames old \<longrightarrow> renderedView new = renderedView old \<longrightarrow>
     \<not> isChildPropertyModified new old"
  "uniqueNames old \<longrightarrow>
     (\<forall>np \<in> set nps. \<not> excluded np \<longrightarrow>
        (\<exists>op \<in> set (getAllChildren old). renderedView np = renderedView op)) \<longrightarrow>
     \<not> forNewProperties nps old"
proof (induction new old and nps old rule: isChildPropertyModified_forNewProperties.induct)
  case (1 i n s v fv cs oldProperties)
  show ?case
  proof (intro impI)
    assume u: "uniqueNames oldProperties"
      and r: "renderedView (PropertyTreeNode i n s v fv cs) = renderedView oldProperties"
    have m: "map renderedView (filter (\<lambda>c. \<not> excluded c) cs) =
       map renderedView (filter (\<lambda>c. \<not> excluded c) (getAllChildren oldProperties))"
      using renderedView_children[OF r] by simp
    have "\<forall>np \<in> set cs. \<not> excluded np \<longrightarrow>
        (\<exists>op \<in> set (getAllChildren oldProperties). renderedView np = renderedView op)"
    proof (intro ballI impI)
      fix np assume "np \<in> set cs" "\<not> excluded np"
      then have "renderedView np \<in> set (map renderedView (filter (\<lambda>c. \<not> excluded c) cs))"
        by simp
      then have "renderedView np \<in>
          set (map renderedView (filter (\<lambda>c. \<not> excluded c) (getAllChildren oldProperties)))"
        using m by simp
      then show "\<exists>op \<in> set (getAllChildren oldProperties). renderedView np = renderedView op"
        by auto
    qed
    with 1 u show "\<not> isChildPropertyModified (PropertyTreeNode i n s v fv cs) oldProperties"
      by simp
  qed
next
  case (2 oldProperties)
  show ?case by simp
next
  case (3 newProperty rest oldProperties)
  show ?case
  proof (intro impI)
    assume u: "uniqueNames oldProperties"
      and a: "\<forall>np \<in> set (newProperty # rest). \<not> excluded np \<longrightarrow>
          (\<exists>op \<in> set (getAllChildren oldProperties). renderedView np = renderedView op)"
    have rest: "\<forall>np \<in> set rest. \<not> excluded np \<longrightarrow>
        (\<exists>op \<in> set (getAllChildren oldProperties). renderedView np = renderedView op)"
      using a by simp
    show "\<not> forNewProperties (newProperty # rest) oldProperties"
    proof (cases "excluded newProperty")
      case True
      then show ?thesis using 3(1,2) u rest by (auto simp: excluded_def)
    next
      case False
      then obtain op where op: "op \<in> set (getAllChildren oldProperties)"
          "renderedView newProperty = renderedView op"
        using a by auto
      have nm: "name newProperty = name op" using op(2) by (rule renderedView_name)
      have g: "getChildByName oldProperties (name newProperty) = Some op"
        unfolding getChildByName_def nm
        using uniqueNames_children[OF u] op(1) by (simp add: find_distinct_name)
      have uop: "uniqueNames op" using uniqueNames_children[OF u] op(1) by simp
      have d: "name newProperty \<notin> set DENYLIST_PROPERTY_NAMES" "source newProperty \<noteq> CALCULATED"
        using False by (auto simp: excluded_def)
      show ?thesis
      proof (cases "length (getAllChildren newProperty) = 0")
        case True
        have "\<not> isPropertyNodeModified (Some newProperty) (Some op)"
          using renderedView_formattedValue[OF op(2)] by (simp add: isPropertyNodeModified_def)
        then show ?thesis using 3(3)[OF d g True] d g True u rest by simp
      next
        case nonLeaf: False
        have "\<not> isChildPropertyModified newProperty op"
          using 3(4)[OF d g nonLeaf] uop op(2) by simp
        then show ?thesis using 3(5)[OF d g nonLeaf] d g nonLeaf u rest by simp
      qed
    qed
  qed
qed


text \<open>
  C3. Diff idempotence: when the old property tree has unique sibling names, as the data
  model requires, and the new tree has the same rendered view (names, rendered values
  and children, once the deny-listed and the calculated properties are left out), the
  modification check of the two hierarchy nodes answers "not modified", and so does the
  check of their property trees; the old tree itself is such a new tree. Differences in
  deny-listed or calculated properties, and in raw values that render alike, are not
  part of the rendered view and never surface.
\<close>

theorem diff_idempotent:
  assumes "uniqueNames (getAllProperties old)"
    and "renderedView (getAllProperties new) = renderedView (getAllProperties old)"
  shows "\<not> isHierarchyTreeModified (Some new) (Some old) \<and>
         \<not> isChildPropertyModified (getAllProperties new) (getAllProperties old) \<and>
         \<not> isHierarchyTreeModified (Some old) (Some old)"
  using assms same_rendered_not_modified(1)[of "getAllProperties old" "getAllProperties new"]
    same_rendered_not_modified(1)[of "getAllProperties old" "getAllProperties old"]
  by (simp add: isHierarchyTreeModified_def)

theorem diff_idempotent_witness:
  "uniqueNames (getAllProperties sample_node_old) \<and>
   renderedView (getAllProperties sample_node_new) = renderedView (getAllProperties sample_node_old) \<and>
   getAllProperties sample_node_new \<noteq> getAllProperties sample_node_old \<and>
   \<not> isHierarchyTreeModified (Some sample_node_new) (Some sample_node_old) \<and>
   \<not> isChildPropertyModified (getAllProperties sample_node_new) (getAllProperties sample_node_old) \<and>
   \<not> isHierarchyTreeModified (Some sample_node_old) (Some sample_node_old)"
  using diff_idempotent[of sample_node_old sample_node_new]
  by (simp add: tree_defs diff_defs)

text \<open>
  The invariant is needed: the lookup by name finds the first of two siblings with the
  same name, so the second one is compared with the first.
\<close>

lemma twins_differ_from_themselves:
  "\<not> uniqueNames sample_twins \<and> isChildPropertyModified sample_twins sample_twins"
  by (simp add: tree_defs diff_defs)



text \<open>
  C5. Of a pair of hierarchy nodes whose new node is a root, the modification check
  answers "not modified", whatever the two property trees are. (With no old node at
  all the check has answered before it looks at the root flag.)
\<close>

theorem root_never_modified:
  "isRoot new \<Longrightarrow> isHierarchyTreeModified (Some new) (Some old) = False"
  by (simp add: isHierarchyTreeModified_def)

theorem root_never_modified_witness:
  "isRoot sample_root_moved \<and>
   isHierarchyTreeModified (Some sample_root_moved) (Some sample_node_old) = False \<and>
   isHierarchyTreeModified (Some sample_node_moved) (Some sample_node_old) = True"
  using root_never_modified[of sample_root_moved sample_node_old]
  by (simp add: tree_defs diff_defs)

section \<open>Properties of the root properties of a transition\<close>

text \<open>
  C9. For a transition tree with a \<^verbatim>\<open>wmData\<close> and a \<^verbatim>\<open>shellData\<close> child,
  \<open>makeProperties\<close> returns exactly two properties made by
  \<^verbatim>\<open>makeCalculatedProperty\<close> under the id of the tree: \<^verbatim>\<open>id\<close>, with the value of
  the \<^verbatim>\<open>id\<close> child of \<^verbatim>\<open>wmData\<close> when there is one and of \<^verbatim>\<open>shellData\<close>
  otherwise, and \<^verbatim>\<open>realToElapsedTimeOffsetNs\<close>, with the value of that child of
  \<^verbatim>\<open>shellData\<close> when there is one and of \<^verbatim>\<open>wmData\<close> otherwise, the preference
  being the other way round when the tree has an \<^verbatim>\<open>aborted\<close> child. When one of the
  two values has no candidate the assertion fails.
\<close>

theorem root_properties:
  assumes "getChildByName value ''wmData'' = Some wmData"
    and "getChildByName value ''shellData'' = Some shellData"
  shows "makeProperties makeCalculatedProperty value =
     (case (case getChildByName wmData ''id'' of
              Some fromWm \<Rightarrow> Some fromWm
            | None \<Rightarrow> getChildByName shellData ''id'') of
        None \<Rightarrow> Inl AssertionFailed
      | Some idNode \<Rightarrow>
          (case (if getChildByName value ''aborted'' = None then
                   (case getChildByName shellData ''realToElapsedTimeOffsetNs'' of
                      Some fromShell \<Rightarrow> Some fromShell
                    | None \<Rightarrow> getChildByName wmData ''realToElapsedTimeOffsetNs'')
                 else
                   (case getChildByName wmData ''realToElapsedTimeOffsetNs'' of
                      Some fromWm \<Rightarrow> Some fromWm
                    | None \<Rightarrow> getChildByName shellData ''realToElapsedTimeOffsetNs'')) of
             None \<Rightarrow> Inl AssertionFailed
           | Some offsetNode \<Rightarrow>
               Inr [makeCalculatedProperty (node_id value) ''id'' (getValue idNode),
                    makeCalculatedProperty (node_id value) ''realToElapsedTimeOffsetNs''
                      (getValue offsetNode)]))"
  using assms
  by (auto simp: makeProperties_def assertDefined_def nullish_def Let_def split: option.splits)

theorem root_properties_witness:
  "getChildByName sample_transition ''wmData'' = Some sample_wmData \<and>
   getChildByName sample_transition ''shellData'' = Some sample_shellData \<and>
   makeProperties sample_makeCalculatedProperty sample_transition =
     Inr [PropertyTreeNode ''transition.id'' ''id'' CALCULATED 7 [] [],
          PropertyTreeNode ''transition.realToElapsedTimeOffsetNs'' ''realToElapsedTimeOffsetNs''
            CALCULATED 2000 [] []] \<and>
   getChildByName sample_transition_aborted ''wmData'' = Some sample_wmData \<and>
   getChildByName sample_transition_aborted ''shellData'' = Some sample_shellData \<and>
   makeProperties sample_makeCalculatedProperty sample_transition_aborted =
     Inr [PropertyTreeNode ''transition.id'' ''id'' CALCULATED 7 [] [],
          PropertyTreeNode ''transition.realToElapsedTimeOffsetNs'' ''realToElapsedTimeOffsetNs''
            CALCULATED 1000 [] []] \<and>
   makeProperties sample_makeCalculatedProperty sample_shellData = Inl AssertionFailed"
  using root_properties[of sample_transition sample_wmData sample_shellData sample_makeCalculatedProperty]
    root_properties[of sample_transition_aborted sample_wmData sample_shellData
      sample_makeCalculatedProperty]
  by (simp add: tree_defs getChildByName_def makeProperties_def assertDefined_def nullish_def)

section \<open>Properties of the parser factory\<close>

lemmas factory_sample_defs =
  sample_file_a_def sample_file_b_def sample_file_vc_def sample_file_txt_def
  sample_parser_a_def sample_parser_b_longer_def sample_parser_b_equal_def
  sample_window_1_def sample_window_2_def sample_variants_def sample_run_def sample_logger_def
  newParserFactory_def

lemmas factory_defs =
  createParsers_def tryBlock_def maybeAddParser_def shouldUseParser_def PARSERS_def
  onProgressUpdate_def returnValue_def spec_selectStep_def spec_firstAccepted_def
  spec_candidates_def spec_acceptingVariants_def Let_def

subsection \<open>The loops as folds\<close>

lemma forParserTypes_find:
  "forParserTypes v Ps f st =
     Inr (case find (\<lambda>P. \<not> isl (v P f)) Ps of
            None \<Rightarrow> (False, st)
          | Some P \<Rightarrow>
              (case v P f of
                 Inl e \<Rightarrow> (False, st)
               | Inr r \<Rightarrow> (True, foldl (\<lambda>s p. maybeAddParser p f s) st (spec_fanOut r))))"
proof (induction Ps)
  case Nil
  show ?case by simp
next
  case (Cons P Ps)
  show ?case
  proof (cases "v P f")
    case (Inl e)
    then show ?thesis using Cons by (simp add: tryBlock_def)
  next
    case (Inr r)
    then show ?thesis by (cases r) (simp_all add: tryBlock_def)
  qed
qed

lemma forParserTypes_selectStep:
  "forParserTypes v PARSERS f st =
     Inr (spec_firstAccepted v f \<noteq> None,
          case spec_firstAccepted v f of
            None \<Rightarrow> st
          | Some r \<Rightarrow> foldl (\<lambda>s p. maybeAddParser p f s) st (spec_fanOut r))"
proof (cases "find (\<lambda>P. \<not> isl (v P f)) PARSERS")
  case None
  then show ?thesis by (simp add: forParserTypes_find spec_firstAccepted_def)
next
  case (Some P)
  then have "\<not> isl (v P f)" by (auto simp: find_Some_iff)
  then obtain r where "v P f = Inr r" by (cases "v P f") auto
  with Some show ?thesis by (simp add: forParserTypes_find spec_firstAccepted_def)
qed

lemma forTraceFiles_fold:
  "forTraceFiles v L n i fs (st, l) =
     Inr (foldl (spec_selectStep v) st fs,
          foldl (\<lambda>l k. onProgressUpdate L ''Parsing proto files'' ((of_nat k / of_nat n) * 100) l)
            l [i..<i + length fs])"
proof (induction fs arbitrary: i st l)
  case Nil
  show ?case by simp
next
  case (Cons f fs)
  have upt: "[i..<i + length (f # fs)] = i # [Suc i..<Suc i + length fs]"
    using upt_conv_Cons[of i "i + length (f # fs)"] by simp
  show ?case
    unfolding upt
    by (cases "spec_firstAccepted v f")
       (simp_all add: forParserTypes_selectStep Cons.IH spec_selectStep_def Let_def)
qed

lemma createParsers_fold:
  "createParsers v fs L (m, l) =
     (let st = foldl (spec_selectStep v) \<lparr>this_parsers = m, parsers = [], errors = []\<rparr> fs
      in Inr ((parsers st, errors st), this_parsers st,
              foldl (\<lambda>l k. onProgressUpdate L ''Parsing proto files''
                       ((of_nat k / of_nat (length fs)) * 100) l) l [0..<length fs]))"
  by (simp add: createParsers_def forTraceFiles_fold Let_def)

subsection \<open>Pairs and errors are only ever appended\<close>







subsection \<open>Candidates of types that the map does not hold yet\<close>

lemma maybeAddParser_unseen:
  "this_parsers st (getTraceType p) = None \<Longrightarrow>
   maybeAddParser p f st =
     st\<lparr>this_parsers := (this_parsers st)(getTraceType p \<mapsto> p), parsers := parsers st @ [(f, p)]\<rparr>"
  by (simp add: maybeAddParser_def shouldUseParser_def)

lemma register_append: "spec_register m (ws @ vs) = spec_register (spec_register m ws) vs"
  by (induction ws arbitrary: m) simp_all

lemma register_other:
  "k \<notin> getTraceType ` set ws \<Longrightarrow> spec_register m ws k = m k"
  by (induction ws arbitrary: m) simp_all

lemma register_member:
  "distinct (map getTraceType ws) \<Longrightarrow> p \<in> set ws \<Longrightarrow> spec_register m ws (getTraceType p) = Some p"
  by (induction ws arbitrary: m) (auto simp: register_other)

lemma fanOut_unseen:
  "distinct (map getTraceType ws) \<Longrightarrow>
   \<forall>p \<in> set ws. m (getTraceType p) = None \<Longrightarrow>
   foldl (\<lambda>s p. maybeAddParser p f s) \<lparr>this_parsers = m, parsers = ps, errors = es\<rparr> ws =
     \<lparr>this_parsers = spec_register m ws, parsers = ps @ map (Pair f) ws, errors = es\<rparr>"
proof (induction ws arbitrary: m ps)
  case Nil
  show ?case by simp
next
  case (Cons w ws)
  have 1: "maybeAddParser w f \<lparr>this_parsers = m, parsers = ps, errors = es\<rparr> =
      \<lparr>this_parsers = m(getTraceType w \<mapsto> w), parsers = ps @ [(f, w)], errors = es\<rparr>"
    using Cons.prems by (simp add: maybeAddParser_unseen)
  have 2: "\<forall>p \<in> set ws. (m(getTraceType w \<mapsto> w)) (getTraceType p) = None"
  proof
    fix p assume p: "p \<in> set ws"
    then have "getTraceType p \<noteq> getTraceType w" using Cons.prems(1) by (auto simp: image_iff)
    then show "(m(getTraceType w \<mapsto> w)) (getTraceType p) = None" using Cons.prems(2) p by simp
  qed
  have 3: "distinct (map getTraceType ws)" using Cons.prems by simp
  show ?case
    by (simp only: foldl_Cons 1 Cons.IH[OF 3 2] spec_register.simps list.map append_assoc
        append.simps)
qed

lemma selectStep_unseen:
  assumes "\<forall>f \<in> set fs. spec_firstAccepted v f \<noteq> None"
    and "distinct (map getTraceType (concat (map (spec_candidates v) fs)))"
    and "\<forall>p \<in> set (concat (map (spec_candidates v) fs)). m (getTraceType p) = None"
  shows "foldl (spec_selectStep v) \<lparr>this_parsers = m, parsers = ps, errors = es\<rparr> fs =
     \<lparr>this_parsers = spec_register m (concat (map (spec_candidates v) fs)),
      parsers = ps @ concat (map (\<lambda>f. map (Pair f) (spec_candidates v f)) fs),
      errors = es\<rparr>"
  using assms
proof (induction fs arbitrary: m ps)
  case Nil
  show ?case by simp
next
  case (Cons f fs)
  let ?ws = "spec_candidates v f"
  let ?st = "\<lparr>this_parsers = m, parsers = ps, errors = es\<rparr>"
  have d: "distinct (map getTraceType ?ws)" using Cons.prems(2) by simp
  have u: "\<forall>p \<in> set ?ws. m (getTraceType p) = None" using Cons.prems(3) by simp
  have "spec_selectStep v ?st f = foldl (\<lambda>s p. maybeAddParser p f s) ?st ?ws"
    using Cons.prems(1) by (auto simp: spec_selectStep_def spec_candidates_def)
  then have step: "spec_selectStep v ?st f =
      \<lparr>this_parsers = spec_register m ?ws, parsers = ps @ map (Pair f) ?ws, errors = es\<rparr>"
    using fanOut_unseen[OF d u] by simp
  have a1: "\<forall>f \<in> set fs. spec_firstAccepted v f \<noteq> None" using Cons.prems(1) by simp
  have a2: "distinct (map getTraceType (concat (map (spec_candidates v) fs)))"
    using Cons.prems(2) by simp
  have a3: "\<forall>p \<in> set (concat (map (spec_candidates v) fs)).
      spec_register m ?ws (getTraceType p) = None"
  proof
    fix p assume p: "p \<in> set (concat (map (spec_candidates v) fs))"
    have "getTraceType p \<notin> getTraceType ` set ?ws" using Cons.prems(2) p by auto
    then show "spec_register m ?ws (getTraceType p) = None"
      using Cons.prems(3) p by (simp add: register_other)
  qed
  show ?case
    by (simp only: foldl_Cons step Cons.IH[OF a1 a2 a3] register_append list.map concat.simps
        append_assoc)
qed

lemma pairs_one_each:
  "\<forall>f \<in> set fs. \<exists>p. c f = [p] \<Longrightarrow>
   map fst (concat (map (\<lambda>f. map (Pair f) (c f)) fs)) = fs"
  by (induction fs) auto

subsection \<open>The claims\<close>

text \<open>
  C1. Conflict arbitration: when the map already holds a parser for the trace type of
  the new parser, and the new parser has strictly more entries, \<open>shouldUseParser\<close>
  answers \<open>True\<close>, the new parser takes the place of the old one in the map and its pair
  is appended, and exactly one \<open>OVERRIDE\<close> error is appended, with the joined
  descriptors and the trace type of the old parser. Otherwise, ties included, the
  answer is \<open>False\<close>, map and pairs stay as they are, and exactly one \<open>OVERRIDE\<close>
  error is appended, with the joined descriptors and the trace type of the new parser.
\<close>

theorem conflict_arbitration:
  assumes "this_parsers st (getTraceType newParser) = Some oldParser"
  shows "if getLengthEntries newParser > getLengthEntries oldParser then
           shouldUseParser (this_parsers st) newParser (errors st) =
             (True, errors st @ [ParserError OVERRIDE (Some (join (getDescriptors oldParser)))
                                   (Some (getTraceType oldParser))]) \<and>
           maybeAddParser newParser f st =
             st\<lparr>this_parsers := (this_parsers st)(getTraceType newParser \<mapsto> newParser),
                parsers := parsers st @ [(f, newParser)],
                errors := errors st @ [ParserError OVERRIDE (Some (join (getDescriptors oldParser)))
                                         (Some (getTraceType oldParser))]\<rparr>
         else
           shouldUseParser (this_parsers st) newParser (errors st) =
             (False, errors st @ [ParserError OVERRIDE (Some (join (getDescriptors newParser)))
                                    (Some (getTraceType newParser))]) \<and>
           maybeAddParser newParser f st =
             st\<lparr>errors := errors st @ [ParserError OVERRIDE (Some (join (getDescriptors newParser)))
                                         (Some (getTraceType newParser))]\<rparr>"
  using assms by (simp add: shouldUseParser_def maybeAddParser_def)

theorem conflict_arbitration_witness:
  "this_parsers sample_run (getTraceType sample_parser_b_longer) = Some sample_parser_a \<and>
   maybeAddParser sample_parser_b_longer sample_file_b sample_run =
     \<lparr>this_parsers = [''SURFACE_FLINGER'' \<mapsto> sample_parser_b_longer],
      parsers = [(sample_file_a, sample_parser_a), (sample_file_b, sample_parser_b_longer)],
      errors = [ParserError OVERRIDE (Some ''sf_a.winscope'') (Some ''SURFACE_FLINGER'')]\<rparr> \<and>
   this_parsers sample_run (getTraceType sample_parser_b_equal) = Some sample_parser_a \<and>
   maybeAddParser sample_parser_b_equal sample_file_b sample_run =
     \<lparr>this_parsers = [''SURFACE_FLINGER'' \<mapsto> sample_parser_a],
      parsers = [(sample_file_a, sample_parser_a)],
      errors = [ParserError OVERRIDE (Some ''sf_b.winscope'') (Some ''SURFACE_FLINGER'')]\<rparr>"
  using conflict_arbitration[of sample_run sample_parser_b_longer sample_parser_a sample_file_b]
    conflict_arbitration[of sample_run sample_parser_b_equal sample_parser_a sample_file_b]
  by (simp add: factory_sample_defs)

text \<open>
  C2. Parser selection: \<open>createParsers\<close> never throws and handles the files one after
  the other, each one as \<open>spec_selectStep\<close> says: the first variant in the order of
  \<open>PARSERS\<close> whose construction and \<^verbatim>\<open>parse()\<close> do not throw is accepted and its
  candidates go through the arbitration; when no variant accepts the file, exactly one
  \<open>UNSUPPORTED_FORMAT\<close> error with the descriptor of the file is appended, and the
  remaining files are processed all the same.
\<close>

theorem parser_selection:
  "\<exists>l'. createParsers variants traceFiles progressListener (thisParsers, l) =
      (let st = foldl (spec_selectStep variants)
                  \<lparr>this_parsers = thisParsers, parsers = [], errors = []\<rparr> traceFiles
       in Inr ((parsers st, errors st), this_parsers st, l'))"
  by (simp add: createParsers_fold Let_def)

theorem parser_selection_witness:
  "returnValue (createParsers sample_variants [sample_file_txt, sample_file_a] None
                  (newParserFactory, ())) =
     Inr ([(sample_file_a, sample_parser_a)],
          [ParserError UNSUPPORTED_FORMAT (Some ''notes.txt'') None])"
  using parser_selection[of sample_variants "[sample_file_txt, sample_file_a]" None
      newParserFactory "()"]
  by (simp add: factory_sample_defs factory_defs)

text \<open>
  C6 as the code has it. When every file is accepted by some variant, and the candidates
  of all the files (one parser for an ordinary variant, the window parsers for a view
  capture) have pairwise different trace types, none of them in the map yet, then
  \<open>createParsers\<close> returns no error at all and, file by file, one pair for each
  candidate, hence exactly one pair for each file when each file has exactly one
  candidate; afterwards the map holds each candidate under its trace type and is
  unchanged elsewhere.
\<close>

theorem conflict_free_load:
  assumes "\<forall>f \<in> set traceFiles. spec_firstAccepted variants f \<noteq> None"
    and "distinct (map getTraceType (concat (map (spec_candidates variants) traceFiles)))"
    and "\<forall>p \<in> set (concat (map (spec_candidates variants) traceFiles)).
           thisParsers (getTraceType p) = None"
  shows "\<exists>pairs thisParsers' l'.
     createParsers variants traceFiles progressListener (thisParsers, l) =
       Inr ((pairs, []), thisParsers', l') \<and>
     pairs = concat (map (\<lambda>f. map (Pair f) (spec_candidates variants f)) traceFiles) \<and>
     ((\<forall>f \<in> set traceFiles. \<exists>p. spec_candidates variants f = [p]) \<longrightarrow>
        map fst pairs = traceFiles) \<and>
     (\<forall>p \<in> set (concat (map (spec_candidates variants) traceFiles)).
        thisParsers' (getTraceType p) = Some p) \<and>
     (\<forall>k. k \<notin> getTraceType ` set (concat (map (spec_candidates variants) traceFiles)) \<longrightarrow>
        thisParsers' k = thisParsers k)"
proof -
  let ?cands = "concat (map (spec_candidates variants) traceFiles)"
  have m: "\<forall>p \<in> set ?cands. spec_register thisParsers ?cands (getTraceType p) = Some p"
    using register_member[OF assms(2)] by (intro ballI)
  have o: "\<forall>k. k \<notin> getTraceType ` set ?cands \<longrightarrow> spec_register thisParsers ?cands k = thisParsers k"
    by (simp add: register_other)
  have one: "(\<forall>f \<in> set traceFiles. \<exists>p. spec_candidates variants f = [p]) \<longrightarrow>
     map fst (concat (map (\<lambda>f. map (Pair f) (spec_candidates variants f)) traceFiles)) = traceFiles"
    using pairs_one_each[of traceFiles "spec_candidates variants"] by (rule impI)
  have eq: "createParsers variants traceFiles progressListener (thisParsers, l) =
      Inr ((concat (map (\<lambda>f. map (Pair f) (spec_candidates variants f)) traceFiles), []),
           spec_register thisParsers ?cands,
           foldl (\<lambda>l k. onProgressUpdate progressListener ''Parsing proto files''
                       ((of_nat k / of_nat (length traceFiles)) * 100) l) l [0..<length traceFiles])"
    unfolding createParsers_fold Let_def selectStep_unseen[OF assms] by simp
  from eq m o one show ?thesis by (intro exI conjI) (assumption | rule refl)+
qed

theorem conflict_free_load_witness:
  "spec_firstAccepted sample_variants sample_file_a \<noteq> None \<and>
   spec_firstAccepted sample_variants sample_file_vc \<noteq> None \<and>
   concat (map (spec_candidates sample_variants) [sample_file_a, sample_file_vc]) =
     [sample_parser_a, sample_window_1, sample_window_2] \<and>
   newParserFactory (getTraceType sample_parser_a) = None \<and>
   newParserFactory (getTraceType sample_window_1) = None \<and>
   newParserFactory (getTraceType sample_window_2) = None \<and>
   distinct (map getTraceType
     (concat (map (spec_candidates sample_variants) [sample_file_a, sample_file_vc]))) \<and>
   returnValue (createParsers sample_variants [sample_file_a, sample_file_vc] None
                  (newParserFactory, ())) =
     Inr ([(sample_file_a, sample_parser_a), (sample_file_vc, sample_window_1),
           (sample_file_vc, sample_window_2)], [])"
  using conflict_free_load[of "[sample_file_a, sample_file_vc]" sample_variants newParserFactory
      None "()"]
  by (simp add: factory_sample_defs factory_defs)

text \<open>
  One pair for each input file does not hold in general: the view capture file below is
  accepted by exactly one variant, its two window parsers have different trace types,
  the factory is new, and the one file yields two pairs.
\<close>

theorem conflict_free_load_counterexample:
  "spec_acceptingVariants sample_variants sample_file_vc = [ParserViewCapture] \<and>
   distinct (map getTraceType (spec_candidates sample_variants sample_file_vc)) \<and>
   returnValue (createParsers sample_variants [sample_file_vc] None (newParserFactory, ())) =
     Inr ([(sample_file_vc, sample_window_1), (sample_file_vc, sample_window_2)], []) \<and>
   length [(sample_file_vc, sample_window_1), (sample_file_vc, sample_window_2)] \<noteq>
   length [sample_file_vc]"
  by (simp add: factory_sample_defs factory_defs)





section \<open>Properties of the trace pipeline\<close>

text \<open>
  A file that the filter lets through and that no variant parses is reported as
  \<open>UNSUPPORTED_FORMAT\<close>; \<open>NO_INPUT_FILES\<close> is for a filter result with no file at
  all.
\<close>

lemma unparsed_file_is_unsupported:
  "returnValue (loadTraceFiles sample_collaborators [sample_file_txt] None (newTracePipeline, ())) =
     Inr [ParserError UNSUPPORTED_FORMAT (Some ''notes.txt'') None]"
  by (simp add: loadTraceFiles_def sample_collaborators_def sample_filter_def
      factory_sample_defs factory_defs newTracePipeline_def)



end
